theory Spec2Isabelle
  imports Complex_Main
begin

section \<open>Data model\<close>

text \<open>
  \<^verbatim>\<open>web/utils.py\<close>: the enum \<^verbatim>\<open>ChaoxingProcessState\<close>, with the
  constructors in the order and spelling of the source.
\<close>

datatype ChaoxingProcessState = INIT | RUNNING | SUCCESS | Failed

text \<open>
  \<^verbatim>\<open>web/chaoxingWorker.py\<close>: the fields of \<^verbatim>\<open>ChaoxingWebConsole\<close> that the
  capture logic reads and writes. \<open>output_collector\<close> is the \<^verbatim>\<open>deque(maxlen=50)\<close>,
  oldest fragment first; \<open>last_output\<close> starts as the class attribute \<^verbatim>\<open>""\<close>.
  The back pointer \<^verbatim>\<open>console.process\<close> is the record that owns the console.
\<close>

record ChaoxingWebConsole =
  mode :: bool
  output_collector :: "string list"
  last_output :: string

text \<open>
  The fields of \<^verbatim>\<open>ChaoxingProcess\<close> that the registry, the prompt bridge and the
  garbage collector use. Clock readings (\<^verbatim>\<open>time.time()\<close>) are real numbers of seconds.
\<close>

record ChaoxingProcess =
  process_id :: string
  phone :: "string option"
  state :: ChaoxingProcessState
  begian_time :: real
  last_refresh_time :: real
  alive :: bool
  console :: ChaoxingWebConsole

text \<open>
  Python objects are shared by reference: the list \<^verbatim>\<open>Multitasking.tasks\<close>, the worker
  and the console all point to the same \<^verbatim>\<open>ChaoxingProcess\<close>. The store \<open>objs\<close> maps
  an address to the object that lives there, \<open>nobjs\<close> is the next free address,
  \<open>tasks\<close> is \<^verbatim>\<open>multitasking.tasks\<close> (a list of addresses, in insertion order) and
  \<open>input_queue\<close> is the dict \<^verbatim>\<open>chaoxing_web_prompt.input_queue\<close>: a key that is
  absent maps to \<open>None\<close>, a key stored with the Python value \<^verbatim>\<open>None\<close> maps to
  \<open>Some None\<close>, a key stored with a string \<open>v\<close> maps to \<open>Some (Some v)\<close>.
\<close>

type_synonym ref = nat

record world =
  objs :: "ref \<Rightarrow> ChaoxingProcess"
  nobjs :: nat
  tasks :: "ref list"
  input_queue :: "string \<rightharpoonup> string option"

section \<open>ChaoxingWebConsole: the output capture\<close>

text \<open>\<^verbatim>\<open>ChaoxingWebConsole.__init__\<close>: an empty deque, the mode as given.\<close>

definition ChaoxingWebConsole_init :: "bool \<Rightarrow> ChaoxingWebConsole" where
  "ChaoxingWebConsole_init web_mode =
     \<lparr>mode = web_mode, output_collector = [], last_output = []\<rparr>"

text \<open>
  \<^verbatim>\<open>collections.deque.append\<close> on a deque with a \<^verbatim>\<open>maxlen\<close>: the item is added on
  the right, and when the deque is then longer than \<^verbatim>\<open>maxlen\<close> one item is popped on
  the left.
\<close>

definition deque_append :: "nat \<Rightarrow> 'a list \<Rightarrow> 'a \<Rightarrow> 'a list" where
  "deque_append maxlen d x =
     (let d' = d @ [x] in if length d' > maxlen then tl d' else d')"

text \<open>
  \<^verbatim>\<open>collect_output\<close> appends \<^verbatim>\<open>str(soup.body.pre.code)\<close> to the deque. The HTML
  fragment is made by Rich and BeautifulSoup, outside this repository: \<open>render\<close> is the
  fragment they give for the printed text.
\<close>

definition collect_output ::
  "(string \<Rightarrow> string) \<Rightarrow> string \<Rightarrow> ChaoxingWebConsole \<Rightarrow> ChaoxingWebConsole" where
  "collect_output render text c =
     c\<lparr>output_collector := deque_append 50 (output_collector c) (render text)\<rparr>"

text \<open>
  \<^verbatim>\<open>ChaoxingWebConsole.print\<close>: in web mode the output is captured and collected; in
  console mode it goes to the terminal and the object is unchanged.
\<close>

definition console_print ::
  "(string \<Rightarrow> string) \<Rightarrow> string \<Rightarrow> ChaoxingWebConsole \<Rightarrow> ChaoxingWebConsole" where
  "console_print render text c = (if mode c then collect_output render text c else c)"

text \<open>A run of prints, in order.\<close>

definition console_prints ::
  "(string \<Rightarrow> string) \<Rightarrow> string list \<Rightarrow> ChaoxingWebConsole \<Rightarrow> ChaoxingWebConsole" where
  "console_prints render texts c = foldl (\<lambda>c' t. console_print render t c') c texts"

text \<open>\<^verbatim>\<open>get_output\<close>: Python's \<^verbatim>\<open>None\<close> outside web mode, else the joined deque.\<close>

definition get_output :: "ChaoxingWebConsole \<Rightarrow> string option" where
  "get_output c = (if \<not> mode c then None else Some (concat (output_collector c)))"

text \<open>
  \<^verbatim>\<open>get_update_output\<close>: the local \<^verbatim>\<open>output\<close> is overwritten by \<^verbatim>\<open>""\<close> when it
  equals \<^verbatim>\<open>last_output\<close>, and \<^verbatim>\<open>last_output\<close> is then assigned from that same local.
  The result is the returned value and the console after the call.
\<close>

definition get_update_output :: "ChaoxingWebConsole \<Rightarrow> string option \<times> ChaoxingWebConsole" where
  "get_update_output c =
     (if \<not> mode c then (None, c)
      else
        (let output = concat (output_collector c);
             output = (if last_output c = output then [] else output)
         in (Some output, c\<lparr>last_output := output\<rparr>)))"

section \<open>ChaoxingProcess: construction and state\<close>

text \<open>
  \<^verbatim>\<open>ChaoxingProcess.__init__\<close>: state \<^verbatim>\<open>INIT\<close>, both timestamps read from the clock,
  \<^verbatim>\<open>alive\<close> the class attribute \<^verbatim>\<open>True\<close>, and a console of its own.
\<close>

definition ChaoxingProcess_init ::
  "string \<Rightarrow> string option \<Rightarrow> bool \<Rightarrow> real \<Rightarrow> ChaoxingProcess" where
  "ChaoxingProcess_init pid ph web_mode now =
     \<lparr>process_id = pid, phone = ph, state = INIT, begian_time = now,
      last_refresh_time = now, alive = True, console = ChaoxingWebConsole_init web_mode\<rparr>"

text \<open>The four state setters of \<^verbatim>\<open>ChaoxingProcess\<close>; none of them reads the state.\<close>

definition to_running :: "ChaoxingProcess \<Rightarrow> ChaoxingProcess" where
  "to_running p = p\<lparr>state := RUNNING\<rparr>"

definition to_success :: "ChaoxingProcess \<Rightarrow> ChaoxingProcess" where
  "to_success p = p\<lparr>state := SUCCESS\<rparr>"

definition to_failed :: "ChaoxingProcess \<Rightarrow> ChaoxingProcess" where
  "to_failed p = p\<lparr>state := Failed\<rparr>"

definition to_init :: "ChaoxingProcess \<Rightarrow> ChaoxingProcess" where
  "to_init p = p\<lparr>state := INIT\<rparr>"

section \<open>The idle timeout and the prompt bridge (web/utils.py)\<close>

text \<open>\<^verbatim>\<open>check_timeout\<close>, with \<open>now\<close> the reading of \<^verbatim>\<open>time.time()\<close>.\<close>

definition check_timeout :: "real \<Rightarrow> ChaoxingProcess \<Rightarrow> bool" where
  "check_timeout now process =
     (if state process = RUNNING
      then (if now - last_refresh_time process > 86400 then True else False)
      else (if now - last_refresh_time process > 300 then True else False))"

text \<open>Writes to the object at an address: its \<^verbatim>\<open>alive\<close> flag, and a print on its console.\<close>

definition set_alive :: "ref \<Rightarrow> bool \<Rightarrow> world \<Rightarrow> world" where
  "set_alive r b w = w\<lparr>objs := (objs w)(r := (objs w r)\<lparr>alive := b\<rparr>)\<rparr>"

definition print_on :: "(string \<Rightarrow> string) \<Rightarrow> string \<Rightarrow> ref \<Rightarrow> world \<Rightarrow> world" where
  "print_on render text r w =
     w\<lparr>objs := (objs w)(r := (objs w r)\<lparr>console := console_print render text (console (objs w r))\<rparr>)\<rparr>"

datatype error = AttributeError | KeyError

text \<open>
  \<^verbatim>\<open>ChaoxingWebPrompt.ask(text, console)\<close>, where \<open>r\<close> is the address of
  \<^verbatim>\<open>console.process\<close>. The returned value is Python's \<^verbatim>\<open>None\<close> (\<open>None\<close>) or a string.
  Outside web mode the answer comes from Rich's \<^verbatim>\<open>Prompt.ask\<close>, here \<open>prompt_ask\<close>.
  The subscript \<^verbatim>\<open>self.input_queue[process_id]\<close> raises \<^verbatim>\<open>KeyError\<close> on a missing key.
\<close>

definition ask ::
  "(string \<Rightarrow> string) \<Rightarrow> (string \<Rightarrow> string) \<Rightarrow> real \<Rightarrow> string \<Rightarrow> ref \<Rightarrow> world
     \<Rightarrow> error + (string option \<times> world)" where
  "ask render prompt_ask now text r w =
     (if mode (console (objs w r)) then
        (let pid = process_id (objs w r);
             w1 = (if input_queue w pid = None
                   then print_on render text r (w\<lparr>input_queue := (input_queue w)(pid \<mapsto> None)\<rparr>)
                   else w)
         in case input_queue w1 pid of
              None \<Rightarrow> Inl KeyError
            | Some (Some v) \<Rightarrow> Inr (Some v, w1\<lparr>input_queue := (input_queue w1)(pid := None)\<rparr>)
            | Some None \<Rightarrow>
                (if check_timeout now (objs w1 r)
                 then Inr (Some ''timeout'', set_alive r False w1)
                 else Inr (None, w1)))
      else Inr (Some (prompt_ask text), w))"

text \<open>
  \<^verbatim>\<open>send_value\<close> of \<^verbatim>\<open>app.py\<close>: the value is stored only under a key that is already
  in the dict. The response is \<^verbatim>\<open>{"status": "success"}\<close> on both paths.
\<close>

definition send_value :: "string \<Rightarrow> string \<Rightarrow> world \<Rightarrow> world" where
  "send_value pid v w =
     (if input_queue w pid \<noteq> None then w\<lparr>input_queue := (input_queue w)(pid \<mapsto> Some v)\<rparr> else w)"

section \<open>Multitasking: the registry\<close>

text \<open>
  \<^verbatim>\<open>Multitasking.__init__\<close>, together with the module-level \<^verbatim>\<open>ChaoxingWebPrompt()\<close>:
  no task and an empty input queue. No object is allocated yet; the store holds a
  placeholder at every address, which nothing reads before \<^verbatim>\<open>create_process\<close> writes it.
\<close>

definition Multitasking_init :: world where
  "Multitasking_init =
     \<lparr>objs = (\<lambda>_. ChaoxingProcess_init [] None False 0), nobjs = 0, tasks = [],
      input_queue = Map.empty\<rparr>"

text \<open>
  \<^verbatim>\<open>Multitasking.create_process\<close>: a new object in web mode, with no phone given to the
  constructor, appended to \<^verbatim>\<open>tasks\<close>. (The worker thread it starts runs beside
  the registry and is not part of this function's result.)
\<close>

definition create_process :: "string \<Rightarrow> real \<Rightarrow> world \<Rightarrow> world" where
  "create_process pid now w =
     w\<lparr>objs := (objs w)(nobjs w := ChaoxingProcess_init pid None True now),
       nobjs := Suc (nobjs w),
       tasks := tasks w @ [nobjs w]\<rparr>"

text \<open>\<^verbatim>\<open>Multitasking.get_process\<close>: the first task with this id, or \<^verbatim>\<open>None\<close>.\<close>

fun get_process_in :: "(ref \<Rightarrow> ChaoxingProcess) \<Rightarrow> ref list \<Rightarrow> string \<Rightarrow> ref option" where
  "get_process_in store [] pid = None"
| "get_process_in store (task # rest) pid =
     (if process_id (store task) = pid then Some task else get_process_in store rest pid)"

definition get_process :: "world \<Rightarrow> string \<Rightarrow> ref option" where
  "get_process w pid = get_process_in (objs w) (tasks w) pid"

text \<open>
  \<^verbatim>\<open>Multitasking.get_process_id\<close>: the id of the first task whose \<^verbatim>\<open>phone\<close> equals the
  argument, or \<^verbatim>\<open>None\<close>. The \<^verbatim>\<open>alive\<close> flag is not read.
\<close>

fun get_process_id_in ::
  "(ref \<Rightarrow> ChaoxingProcess) \<Rightarrow> ref list \<Rightarrow> string option \<Rightarrow> string option" where
  "get_process_id_in store [] ph = None"
| "get_process_id_in store (task # rest) ph =
     (if phone (store task) = ph then Some (process_id (store task))
      else get_process_id_in store rest ph)"

definition get_process_id :: "world \<Rightarrow> string option \<Rightarrow> string option" where
  "get_process_id w ph = get_process_id_in (objs w) (tasks w) ph"

section \<open>The routes of app.py\<close>

text \<open>
  \<^verbatim>\<open>create_process()\<close> of \<^verbatim>\<open>app.py\<close>: \<open>uuid\<close> is the value of \<^verbatim>\<open>uuid.uuid4().hex\<close>.
\<close>

definition app_create_process :: "string \<Rightarrow> real \<Rightarrow> world \<Rightarrow> string \<times> world" where
  "app_create_process uuid now w = (uuid, create_process uuid now w)"

text \<open>
  The route \<^verbatim>\<open>/get_process_id\<close>: the \<^verbatim>\<open>process_id\<close> of the response and the world
  after the call. \<open>uuid\<close> is what \<^verbatim>\<open>uuid.uuid4().hex\<close> gives if it is called.
\<close>

definition app_get_process_id :: "string \<Rightarrow> string \<Rightarrow> real \<Rightarrow> world \<Rightarrow> string \<times> world" where
  "app_get_process_id ph uuid now w =
     (case get_process_id w (Some ph) of
        None \<Rightarrow> app_create_process uuid now w
      | Some pid \<Rightarrow> (pid, w))"

text \<open>
  The route \<^verbatim>\<open>/get_process_output\<close>: \<^verbatim>\<open>.console\<close> is read from the result of
  \<^verbatim>\<open>get_process\<close> with no test, which raises \<^verbatim>\<open>AttributeError\<close> on \<^verbatim>\<open>None\<close>.
  Otherwise the \<^verbatim>\<open>output\<close> of the response.
\<close>

definition app_get_process_output :: "string \<Rightarrow> world \<Rightarrow> error + string option" where
  "app_get_process_output pid w =
     (case get_process w pid of
        None \<Rightarrow> Inl AttributeError
      | Some r \<Rightarrow> Inr (get_output (console (objs w r))))"

text \<open>The two responses of \<^verbatim>\<open>/update_process_refresh_time\<close>.\<close>

datatype response = StatusSuccess | StatusError string

definition update_process_refresh_time :: "string \<Rightarrow> real \<Rightarrow> world \<Rightarrow> response \<times> world" where
  "update_process_refresh_time pid now w =
     (case get_process w pid of
        None \<Rightarrow> (StatusError (''No process found with id '' @ pid), w)
      | Some r \<Rightarrow>
          (StatusSuccess, w\<lparr>objs := (objs w)(r := (objs w r)\<lparr>last_refresh_time := now\<rparr>)\<rparr>))"

section \<open>GarbageCollector: one pass over the tasks\<close>

text \<open>
  The \<^verbatim>\<open>for task in self.multitasking.tasks\<close> loop of \<^verbatim>\<open>GarbageCollector.run\<close>.
  Python's list iterator keeps an index \<open>i\<close> into the list itself: each step reads
  \<^verbatim>\<open>tasks[i]\<close> if \<open>i\<close> is still inside the list as it is then, and moves to
  \<open>i + 1\<close>. \<^verbatim>\<open>tasks.remove(task)\<close> deletes the first occurrence of the address, so
  the later items move one place down while the index still moves up.
\<close>

function gc_loop :: "real \<Rightarrow> nat \<Rightarrow> world \<Rightarrow> world" where
  "gc_loop now i w =
     (if i < length (tasks w) then
        (if check_timeout now (objs w (tasks w ! i))
         then gc_loop now (Suc i)
                ((set_alive (tasks w ! i) False w)\<lparr>tasks := remove1 (tasks w ! i) (tasks w)\<rparr>)
         else gc_loop now (Suc i) w)
      else w)"
  by pat_completeness auto
termination
  by (relation "measure (\<lambda>(now, i, w). length (tasks w) - i)")
     (auto simp: length_remove1 set_alive_def)

text \<open>One tick of \<^verbatim>\<open>GarbageCollector.run\<close>: the loop from the start of the list.\<close>

definition gc_tick :: "real \<Rightarrow> world \<Rightarrow> world" where
  "gc_tick now w = gc_loop now 0 w"

section \<open>Auxiliary facts\<close>

declare gc_loop.simps [simp del]

subsection \<open>The deque and the console\<close>

lemma deque_append_drop:
  "length d \<le> n \<Longrightarrow> deque_append n d x = drop (Suc (length d) - n) (d @ [x])"
  by (cases d) (auto simp: deque_append_def Let_def Suc_diff_le)

lemma deque_append_length:
  "length d \<le> n \<Longrightarrow> length (deque_append n d x) \<le> n"
  by (cases d) (auto simp: deque_append_def Let_def)

lemma foldl_deque_append:
  "length d \<le> n \<Longrightarrow>
     foldl (deque_append n) d xs = drop (length d + length xs - n) (d @ xs)"
proof (induction xs arbitrary: d)
  case Nil
  then show ?case by simp
next
  case (Cons x xs)
  let ?d = "deque_append n d x"
  have len: "length ?d \<le> n"
    using Cons.prems by (rule deque_append_length)
  have d_eq: "?d = drop (Suc (length d) - n) (d @ [x])"
    using Cons.prems by (rule deque_append_drop)
  have "foldl (deque_append n) ?d xs = drop (length ?d + length xs - n) (?d @ xs)"
    using len by (rule Cons.IH)
  also have "\<dots> = drop (length d + length (x # xs) - n) (d @ x # xs)"
  proof (cases "length d = n")
    case True
    then show ?thesis using d_eq by (cases d) auto
  next
    case False
    with Cons.prems have "Suc (length d) - n = 0" by simp
    with d_eq show ?thesis by simp
  qed
  finally show ?case by simp
qed

lemma console_prints_web:
  "mode c \<Longrightarrow>
     console_prints render texts c =
       c\<lparr>output_collector := foldl (deque_append 50) (output_collector c) (map render texts)\<rparr>"
proof (induction texts arbitrary: c)
  case Nil
  then show ?case by (simp add: console_prints_def)
next
  case (Cons t texts)
  have step: "mode (console_print render t c)"
    using Cons.prems by (simp add: console_print_def collect_output_def)
  have "console_prints render (t # texts) c = console_prints render texts (console_print render t c)"
    by (simp add: console_prints_def)
  also have "\<dots> = (console_print render t c)
      \<lparr>output_collector :=
         foldl (deque_append 50) (output_collector (console_print render t c)) (map render texts)\<rparr>"
    using step by (rule Cons.IH)
  finally show ?case
    using Cons.prems by (simp add: console_print_def collect_output_def)
qed

lemma get_update_output_changed:
  "mode c \<Longrightarrow> last_output c \<noteq> concat (output_collector c) \<Longrightarrow>
     get_update_output c
       = (Some (concat (output_collector c)), c\<lparr>last_output := concat (output_collector c)\<rparr>)"
  by (simp add: get_update_output_def Let_def)

lemma get_update_output_unchanged:
  "mode c \<Longrightarrow> last_output c = concat (output_collector c) \<Longrightarrow>
     get_update_output c = (Some [], c\<lparr>last_output := []\<rparr>)"
  by (simp add: get_update_output_def Let_def)

subsection \<open>The timeout predicate and the three outcomes of ask\<close>

lemma check_timeout_iff:
  "check_timeout now p \<longleftrightarrow>
     (if state p = RUNNING then 86400 < now - last_refresh_time p
      else 300 < now - last_refresh_time p)"
  by (simp add: check_timeout_def)

lemma check_timeout_console [simp]:
  "check_timeout now (p\<lparr>console := c\<rparr>) = check_timeout now p"
  by (simp add: check_timeout_def)

lemma ask_pending:
  assumes "mode (console (objs w r))"
      and "input_queue w (process_id (objs w r)) = Some None"
  shows "ask render prompt_ask now text r w =
           Inr (if check_timeout now (objs w r) then (Some ''timeout'', set_alive r False w)
                else (None, w))"
  using assms by (simp add: ask_def Let_def)

lemma ask_answered:
  assumes "mode (console (objs w r))"
      and "input_queue w (process_id (objs w r)) = Some (Some v)"
  shows "ask render prompt_ask now text r w =
           Inr (Some v, w\<lparr>input_queue := (input_queue w)(process_id (objs w r) := None)\<rparr>)"
  using assms by (simp add: ask_def Let_def)

lemma ask_fresh:
  assumes "mode (console (objs w r))"
      and "input_queue w (process_id (objs w r)) = None"
  shows "ask render prompt_ask now text r w =
           Inr (if check_timeout now (objs w r)
                then (Some ''timeout'',
                      set_alive r False (print_on render text r
                        (w\<lparr>input_queue := (input_queue w)(process_id (objs w r) \<mapsto> None)\<rparr>)))
                else (None,
                      print_on render text r
                        (w\<lparr>input_queue := (input_queue w)(process_id (objs w r) \<mapsto> None)\<rparr>)))"
  using assms by (simp add: ask_def Let_def print_on_def console_print_def collect_output_def)

lemma ask_console_mode:
  "\<not> mode (console (objs w r)) \<Longrightarrow>
     ask render prompt_ask now text r w = Inr (Some (prompt_ask text), w)"
  by (simp add: ask_def)

lemma ask_never_raises:
  "ask render prompt_ask now text r w \<noteq> Inl e"
proof (cases "mode (console (objs w r))")
  case False
  then show ?thesis by (simp add: ask_console_mode)
next
  case True
  show ?thesis
  proof (cases "input_queue w (process_id (objs w r))")
    case None
    with True show ?thesis by (simp add: ask_fresh)
  next
    case (Some slot)
    with True show ?thesis
      by (cases slot) (simp_all add: ask_pending ask_answered)
  qed
qed

lemma print_on_web:
  "mode (console (objs w r)) \<Longrightarrow>
     output_collector (console (objs (print_on render text r w) r))
       = deque_append 50 (output_collector (console (objs w r))) (render text)"
  by (simp add: print_on_def console_print_def collect_output_def)

lemma print_on_queue [simp]: "input_queue (print_on render text r w) = input_queue w"
  by (simp add: print_on_def)

lemma set_alive_queue [simp]: "input_queue (set_alive r b w) = input_queue w"
  by (simp add: set_alive_def)

subsection \<open>The registry and the garbage collector\<close>

lemma gc_tick_single:
  assumes "tasks w = [r]"
  shows "gc_tick now w =
           (if check_timeout now (objs w r) then (set_alive r False w)\<lparr>tasks := []\<rparr> else w)"
proof (cases "check_timeout now (objs w r)")
  case True
  have "gc_tick now w = gc_loop now (Suc 0) ((set_alive r False w)\<lparr>tasks := []\<rparr>)"
    using assms True by (simp add: gc_tick_def gc_loop.simps [of now 0 w])
  also have "\<dots> = (set_alive r False w)\<lparr>tasks := []\<rparr>"
    by (simp add: gc_loop.simps [of now "Suc 0"])
  finally show ?thesis using True by simp
next
  case False
  have "gc_tick now w = gc_loop now (Suc 0) w"
    using assms False by (simp add: gc_tick_def gc_loop.simps [of now 0 w])
  also have "\<dots> = w"
    using assms by (simp add: gc_loop.simps [of now "Suc 0" w])
  finally show ?thesis using False by simp
qed

lemma check_timeout_alive [simp]:
  "check_timeout now (p\<lparr>alive := b\<rparr>) = check_timeout now p"
  by (simp add: check_timeout_def)

lemma set_alive_tasks [simp]: "tasks (set_alive r b w) = tasks w"
  by (simp add: set_alive_def)

lemma check_timeout_set_alive [simp]:
  "check_timeout now (objs (set_alive t b w) r) = check_timeout now (objs w r)"
  by (simp add: set_alive_def)

text \<open>
  What a pass takes out of the list was over its threshold, and is marked dead: the loop
  never removes a record that is within its threshold.
\<close>

lemma gc_loop_keeps_dead:
  "\<not> alive (objs w r) \<Longrightarrow> \<not> alive (objs (gc_loop now i w) r)"
proof (induction now i w rule: gc_loop.induct)
  case (1 now i w)
  show ?case
  proof (cases "i < length (tasks w)")
    case False
    then show ?thesis using "1.prems" by (simp add: gc_loop.simps [of now i w])
  next
    case inside: True
    show ?thesis
    proof (cases "check_timeout now (objs w (tasks w ! i))")
      case True
      let ?w = "(set_alive (tasks w ! i) False w)\<lparr>tasks := remove1 (tasks w ! i) (tasks w)\<rparr>"
      have dead: "\<not> alive (objs ?w r)"
        using "1.prems" by (simp add: set_alive_def)
      have "\<not> alive (objs (gc_loop now (Suc i) ?w) r)"
        using inside True dead by (rule "1.IH"(1))
      then show ?thesis
        using inside True by (simp add: gc_loop.simps [of now i w])
    next
      case False
      have "\<not> alive (objs (gc_loop now (Suc i) w) r)"
        using inside False "1.prems" by (rule "1.IH"(2))
      then show ?thesis
        using inside False by (simp add: gc_loop.simps [of now i w])
    qed
  qed
qed

lemma gc_loop_removed:
  "r \<in> set (tasks w) \<Longrightarrow> r \<notin> set (tasks (gc_loop now i w)) \<Longrightarrow>
     check_timeout now (objs w r) \<and> \<not> alive (objs (gc_loop now i w) r)"
proof (induction now i w rule: gc_loop.induct)
  case (1 now i w)
  show ?case
  proof (cases "i < length (tasks w)")
    case False
    then show ?thesis using "1.prems" by (simp add: gc_loop.simps [of now i w])
  next
    case inside: True
    show ?thesis
    proof (cases "check_timeout now (objs w (tasks w ! i))")
      case True
      let ?t = "tasks w ! i"
      let ?w = "(set_alive ?t False w)\<lparr>tasks := remove1 ?t (tasks w)\<rparr>"
      have step: "gc_loop now i w = gc_loop now (Suc i) ?w"
        using inside True by (simp add: gc_loop.simps [of now i w])
      show ?thesis
      proof (cases "r \<in> set (tasks ?w)")
        case True
        have gone: "r \<notin> set (tasks (gc_loop now (Suc i) ?w))"
          using "1.prems"(2) step by simp
        have "check_timeout now (objs ?w r) \<and> \<not> alive (objs (gc_loop now (Suc i) ?w) r)"
          using inside \<open>check_timeout now (objs w ?t)\<close> True gone by (rule "1.IH"(1))
        then show ?thesis using step by simp
      next
        case False
        then have "r \<notin> set (remove1 ?t (tasks w))" by simp
        with "1.prems"(1) have eq: "r = ?t"
          by (metis in_set_remove1)
        have "\<not> alive (objs ?w r)"
          using eq by (simp add: set_alive_def)
        then have "\<not> alive (objs (gc_loop now (Suc i) ?w) r)"
          by (rule gc_loop_keeps_dead)
        then show ?thesis
          using step eq True by simp
      qed
    next
      case False
      have step: "gc_loop now i w = gc_loop now (Suc i) w"
        using inside False by (simp add: gc_loop.simps [of now i w])
      have "check_timeout now (objs w r) \<and> \<not> alive (objs (gc_loop now (Suc i) w) r)"
        using inside False "1.prems"(1) "1.prems"(2) [unfolded step] by (rule "1.IH"(2))
      then show ?thesis using step by simp
    qed
  qed
qed

lemma gc_tick_removed:
  "r \<in> set (tasks w) \<Longrightarrow> r \<notin> set (tasks (gc_tick now w)) \<Longrightarrow>
     check_timeout now (objs w r) \<and> \<not> alive (objs (gc_tick now w) r)"
  unfolding gc_tick_def by (rule gc_loop_removed)

lemma get_process_in_None:
  "(\<forall>t\<in>set ts. process_id (store t) \<noteq> pid) \<Longrightarrow> get_process_in store ts pid = None"
  by (induction ts) auto

lemma get_process_id_in_find:
  "get_process_id_in store ts ph
     = map_option (\<lambda>t. process_id (store t)) (find (\<lambda>t. phone (store t) = ph) ts)"
  by (induction ts) simp_all

lemma get_process_id_in_None:
  "get_process_id_in store ts ph = None \<longleftrightarrow> (\<forall>t\<in>set ts. phone (store t) \<noteq> ph)"
  by (induction ts) simp_all

lemma get_process_id_create:
  assumes "get_process_id w (Some ph) = None"
  shows "get_process_id (create_process uuid now w) (Some ph) = None"
proof -
  let ?new = "ChaoxingProcess_init uuid None True now"
  have old: "\<forall>t\<in>set (tasks w). phone (objs w t) \<noteq> Some ph"
    using assms by (simp add: get_process_id_def get_process_id_in_None)
  have "\<forall>t\<in>set (tasks w @ [nobjs w]). phone (((objs w)(nobjs w := ?new)) t) \<noteq> Some ph"
    using old by (simp add: ChaoxingProcess_init_def)
  then show ?thesis
    by (simp add: get_process_id_def create_process_def get_process_id_in_None)
qed
subsection \<open>The state setters\<close>

lemma state_of_last_setter:
  assumes "fs \<noteq> []" and "set fs \<subseteq> {to_init, to_running, to_success, to_failed}"
  shows "state (fold (\<lambda>f. f) fs p) = state (last fs q)"
  using assms
proof (induction fs rule: rev_induct)
  case Nil
  then show ?case by simp
next
  case (snoc f fs)
  then have "f \<in> {to_init, to_running, to_success, to_failed}" by simp
  then show ?case
    by (auto simp: to_init_def to_running_def to_success_def to_failed_def)
qed


section \<open>The claims\<close>

subsection \<open>C1: get_update_output\<close>

text \<open>
  C1 says that in web mode every \<^verbatim>\<open>get_update_output\<close> leaves the snapshot equal to the
  full output, so that with no print in between every call after the first returns the
  empty string. The code stores the value it returns, not the full output, in
  \<^verbatim>\<open>last_output\<close>: on a console that holds the single fragment \<open>A\<close> the first call
  returns \<open>A\<close>, the second returns the empty string and resets the snapshot to the
  empty string, and the third call returns \<open>A\<close> again.
\<close>

theorem get_update_output_resends:
  "fst (get_update_output \<lparr>mode = True, output_collector = [''A''], last_output = []\<rparr>) = Some ''A''
   \<and> get_update_output
         (snd (get_update_output \<lparr>mode = True, output_collector = [''A''], last_output = []\<rparr>))
       = (Some [], \<lparr>mode = True, output_collector = [''A''], last_output = []\<rparr>)
   \<and> fst (get_update_output (snd (get_update_output (snd (get_update_output
         \<lparr>mode = True, output_collector = [''A''], last_output = []\<rparr>))))) = Some ''A''"
  by (simp add: get_update_output_def Let_def)

subsection \<open>C2: one pass of the garbage collector\<close>

text \<open>
  C2 says that one pass removes every record that is over its threshold and marks it dead.
  Whatever a pass removes was over its threshold and is marked dead
  (\<open>gc_tick_removed\<close>), but the loop removes from the list it iterates over, so the
  record that follows a removed one is never visited: with two records created at time 0
  and a pass at time 301, both are over the 300 second threshold, yet only the first is
  marked dead and removed; the second stays in \<^verbatim>\<open>tasks\<close> with \<^verbatim>\<open>alive\<close> still
  true.
\<close>

theorem gc_tick_skips_neighbour:
  "tasks (create_process ''p1'' 0 (create_process ''p0'' 0 Multitasking_init)) = [0, 1]
   \<and> check_timeout 301 (objs (create_process ''p1'' 0 (create_process ''p0'' 0 Multitasking_init)) 0)
   \<and> check_timeout 301 (objs (create_process ''p1'' 0 (create_process ''p0'' 0 Multitasking_init)) 1)
   \<and> tasks (gc_tick 301 (create_process ''p1'' 0 (create_process ''p0'' 0 Multitasking_init))) = [1]
   \<and> \<not> alive (objs (gc_tick 301 (create_process ''p1'' 0 (create_process ''p0'' 0 Multitasking_init))) 0)
   \<and> alive (objs (gc_tick 301 (create_process ''p1'' 0 (create_process ''p0'' 0 Multitasking_init))) 1)"
proof -
  let ?w = "create_process ''p1'' 0 (create_process ''p0'' 0 Multitasking_init)"
  have t: "tasks ?w = [0, 1]"
    and o0: "objs ?w 0 = ChaoxingProcess_init ''p0'' None True 0"
    and o1: "objs ?w 1 = ChaoxingProcess_init ''p1'' None True 0"
    by (simp_all add: create_process_def Multitasking_init_def)
  have c0: "check_timeout 301 (objs ?w 0)" and c1: "check_timeout 301 (objs ?w 1)"
    and a1: "alive (objs ?w 1)"
    unfolding o0 o1 by (simp_all add: check_timeout_def ChaoxingProcess_init_def)
  let ?w1 = "(set_alive 0 False ?w)\<lparr>tasks := [1]\<rparr>"
  have "gc_tick 301 ?w = gc_loop 301 (Suc 0) ?w1"
    using t c0 by (simp add: gc_tick_def gc_loop.simps [of 301 0 ?w])
  also have "\<dots> = ?w1"
    by (subst gc_loop.simps) simp
  finally have g: "gc_tick 301 ?w = ?w1" .
  show ?thesis
    unfolding g using t c0 c1 a1 by (simp add: set_alive_def)
qed

subsection \<open>C3: the route /get_process_id\<close>

text \<open>
  C3 as stated fails: two calls in a row with the same phone number, starting from an empty
  registry, return two different ids and leave two processes, because
  \<^verbatim>\<open>create_process\<close> builds the new process without a phone.
\<close>

theorem app_get_process_id_twice_new_ids:
  "fst (app_get_process_id ''13800000000'' ''id-a'' 0 Multitasking_init) = ''id-a''
   \<and> fst (app_get_process_id ''13800000000'' ''id-b'' 1
           (snd (app_get_process_id ''13800000000'' ''id-a'' 0 Multitasking_init))) = ''id-b''
   \<and> tasks (snd (app_get_process_id ''13800000000'' ''id-b'' 1
           (snd (app_get_process_id ''13800000000'' ''id-a'' 0 Multitasking_init)))) = [0, 1]"
  by (simp add: app_get_process_id_def app_create_process_def get_process_id_def
        create_process_def Multitasking_init_def ChaoxingProcess_init_def)

text \<open>
  C3, amended: the lookup by phone returns the id of the first task, in insertion order,
  whose \<^verbatim>\<open>phone\<close> equals the argument (the \<^verbatim>\<open>alive\<close> flag is not read). When there is such
  a task the route returns its id and changes nothing, and so does every later call. When
  there is none the route appends a new process under the fresh id, with no phone, so the
  lookup by that phone still finds nothing afterwards and the next call creates once more.
\<close>

theorem app_get_process_id_first_match_or_create:
  "get_process_id w (Some ph)
     = map_option (\<lambda>t. process_id (objs w t)) (find (\<lambda>t. phone (objs w t) = Some ph) (tasks w))
   \<and> (get_process_id w (Some ph) = Some pid \<longrightarrow>
        app_get_process_id ph uuid now w = (pid, w)
        \<and> app_get_process_id ph uuid' now' (snd (app_get_process_id ph uuid now w)) = (pid, w))
   \<and> (get_process_id w (Some ph) = None \<longrightarrow>
        app_get_process_id ph uuid now w = (uuid, create_process uuid now w)
        \<and> tasks (create_process uuid now w) = tasks w @ [nobjs w]
        \<and> objs (create_process uuid now w) (nobjs w) = ChaoxingProcess_init uuid None True now
        \<and> get_process_id (create_process uuid now w) (Some ph) = None
        \<and> app_get_process_id ph uuid' now' (snd (app_get_process_id ph uuid now w))
            = (uuid', create_process uuid' now' (create_process uuid now w)))"
proof -
  have a: "get_process_id w (Some ph)
     = map_option (\<lambda>t. process_id (objs w t)) (find (\<lambda>t. phone (objs w t) = Some ph) (tasks w))"
    by (simp add: get_process_id_def get_process_id_in_find)
  have b: "app_get_process_id ph uuid now w = (pid, w)
        \<and> app_get_process_id ph uuid' now' (snd (app_get_process_id ph uuid now w)) = (pid, w)"
    if "get_process_id w (Some ph) = Some pid"
    using that by (simp add: app_get_process_id_def)
  have c: "app_get_process_id ph uuid now w = (uuid, create_process uuid now w)
        \<and> tasks (create_process uuid now w) = tasks w @ [nobjs w]
        \<and> objs (create_process uuid now w) (nobjs w) = ChaoxingProcess_init uuid None True now
        \<and> get_process_id (create_process uuid now w) (Some ph) = None
        \<and> app_get_process_id ph uuid' now' (snd (app_get_process_id ph uuid now w))
            = (uuid', create_process uuid' now' (create_process uuid now w))"
    if none: "get_process_id w (Some ph) = None"
  proof -
    have 1: "app_get_process_id ph uuid now w = (uuid, create_process uuid now w)"
      using none by (simp add: app_get_process_id_def app_create_process_def)
    have 2: "get_process_id (create_process uuid now w) (Some ph) = None"
      using none by (rule get_process_id_create)
    have 3: "app_get_process_id ph uuid' now' (create_process uuid now w)
            = (uuid', create_process uuid' now' (create_process uuid now w))"
      using 2 by (simp add: app_get_process_id_def app_create_process_def)
    have 4: "tasks (create_process uuid now w) = tasks w @ [nobjs w]"
      "objs (create_process uuid now w) (nobjs w) = ChaoxingProcess_init uuid None True now"
      by (simp_all add: create_process_def)
    from 1 2 3 4 show ?thesis by simp
  qed
  from a b c show ?thesis by blast
qed

text \<open>
  Both cases at concrete registries: one whose only process has had the phone
  \<open>13800000000\<close> stored on it, and the empty one.
\<close>

theorem app_get_process_id_first_match_or_create_witness:
  "get_process_id
       ((create_process ''id-a'' 0 Multitasking_init)
          \<lparr>objs := (objs (create_process ''id-a'' 0 Multitasking_init))
             (0 := (objs (create_process ''id-a'' 0 Multitasking_init) 0)
                     \<lparr>phone := Some ''13800000000''\<rparr>)\<rparr>)
       (Some ''13800000000'') = Some ''id-a''
   \<and> fst (app_get_process_id ''13800000000'' ''id-b'' 1
       ((create_process ''id-a'' 0 Multitasking_init)
          \<lparr>objs := (objs (create_process ''id-a'' 0 Multitasking_init))
             (0 := (objs (create_process ''id-a'' 0 Multitasking_init) 0)
                     \<lparr>phone := Some ''13800000000''\<rparr>)\<rparr>)) = ''id-a''
   \<and> get_process_id Multitasking_init (Some ''13800000000'') = None
   \<and> app_get_process_id ''13800000000'' ''id-a'' 0 Multitasking_init
       = (''id-a'', create_process ''id-a'' 0 Multitasking_init)
   \<and> get_process_id (create_process ''id-a'' 0 Multitasking_init) (Some ''13800000000'') = None"
proof -
  let ?w0 = "create_process ''id-a'' 0 Multitasking_init"
  let ?w = "?w0\<lparr>objs := (objs ?w0)(0 := (objs ?w0 0)\<lparr>phone := Some ''13800000000''\<rparr>)\<rparr>"
  have some: "get_process_id ?w (Some ''13800000000'') = Some ''id-a''"
    by (simp add: get_process_id_def create_process_def Multitasking_init_def
          ChaoxingProcess_init_def)
  have none: "get_process_id Multitasking_init (Some ''13800000000'') = None"
    by (simp add: get_process_id_def Multitasking_init_def)
  have 1: "app_get_process_id ''13800000000'' ''id-b'' 1 ?w = (''id-a'', ?w)"
    using app_get_process_id_first_match_or_create
            [of ?w "''13800000000''" "''id-a''" "''id-b''" 1] some
    by blast
  have 2: "app_get_process_id ''13800000000'' ''id-a'' 0 Multitasking_init
       = (''id-a'', create_process ''id-a'' 0 Multitasking_init)
     \<and> get_process_id (create_process ''id-a'' 0 Multitasking_init) (Some ''13800000000'') = None"
    using app_get_process_id_first_match_or_create
            [of Multitasking_init "''13800000000''" _ "''id-a''" 0] none
    by blast
  from 1 have 3: "fst (app_get_process_id ''13800000000'' ''id-b'' 1 ?w) = ''id-a''"
    by simp
  from some none 2 3 show ?thesis by blast
qed

subsection \<open>C4: the call of ask that creates the slot\<close>

text \<open>
  C4 as stated fails: the call that creates the slot goes on to the timeout test. A process
  created at time 0 and never refreshed, asked for the first time at time 301, gets
  \<open>timeout\<close> from that very call.
\<close>

theorem ask_first_call_timeout:
  "input_queue (create_process ''p0'' 0 Multitasking_init) ''p0'' = None
   \<and> ask (\<lambda>s. s) (\<lambda>s. s) 301 ''code?'' 0 (create_process ''p0'' 0 Multitasking_init)
       = Inr (Some ''timeout'',
              set_alive 0 False (print_on (\<lambda>s. s) ''code?'' 0
                ((create_process ''p0'' 0 Multitasking_init)\<lparr>input_queue := [''p0'' \<mapsto> None]\<rparr>)))"
  by (simp add: ask_def Let_def create_process_def Multitasking_init_def ChaoxingProcess_init_def
        ChaoxingWebConsole_init_def check_timeout_def print_on_def console_print_def
        collect_output_def)

text \<open>
  C4, amended: in web mode, for a process id with no slot, \<^verbatim>\<open>ask\<close> stores the slot with
  the value \<^verbatim>\<open>None\<close> and appends the fragment of the prompt text to that process's
  deque; it then returns \<^verbatim>\<open>None\<close> (no answer yet) when the process is within its idle
  threshold, and otherwise sets \<^verbatim>\<open>alive\<close> to false and returns \<open>timeout\<close> on this same
  call.
\<close>

theorem ask_first_call:
  assumes "mode (console (objs w r))"
      and "input_queue w (process_id (objs w r)) = None"
  shows "ask render prompt_ask now text r w =
           Inr (if check_timeout now (objs w r)
                then (Some ''timeout'',
                      set_alive r False (print_on render text r
                        (w\<lparr>input_queue := (input_queue w)(process_id (objs w r) \<mapsto> None)\<rparr>)))
                else (None,
                      print_on render text r
                        (w\<lparr>input_queue := (input_queue w)(process_id (objs w r) \<mapsto> None)\<rparr>)))
         \<and> input_queue (print_on render text r
                (w\<lparr>input_queue := (input_queue w)(process_id (objs w r) \<mapsto> None)\<rparr>))
              (process_id (objs w r)) = Some None
         \<and> output_collector (console (objs (print_on render text r
                (w\<lparr>input_queue := (input_queue w)(process_id (objs w r) \<mapsto> None)\<rparr>)) r))
             = deque_append 50 (output_collector (console (objs w r))) (render text)"
proof -
  let ?w = "w\<lparr>input_queue := (input_queue w)(process_id (objs w r) \<mapsto> None)\<rparr>"
  have "mode (console (objs ?w r))" using assms(1) by simp
  then have "output_collector (console (objs (print_on render text r ?w) r))
       = deque_append 50 (output_collector (console (objs ?w r))) (render text)"
    by (rule print_on_web)
  then show ?thesis
    using ask_fresh [OF assms] by simp
qed

theorem ask_first_call_witness:
  "mode (console (objs (create_process ''p0'' 0 Multitasking_init) 0))
   \<and> input_queue (create_process ''p0'' 0 Multitasking_init) ''p0'' = None
   \<and> ask (\<lambda>s. s) (\<lambda>s. s) 300 ''code?'' 0 (create_process ''p0'' 0 Multitasking_init)
       = Inr (None, print_on (\<lambda>s. s) ''code?'' 0
                ((create_process ''p0'' 0 Multitasking_init)\<lparr>input_queue := [''p0'' \<mapsto> None]\<rparr>))
   \<and> output_collector (console (objs (print_on (\<lambda>s. s) ''code?'' 0
                ((create_process ''p0'' 0 Multitasking_init)\<lparr>input_queue := [''p0'' \<mapsto> None]\<rparr>)) 0))
       = [''code?'']"
proof -
  let ?w = "create_process ''p0'' 0 Multitasking_init"
  have obj: "objs ?w 0 = ChaoxingProcess_init ''p0'' None True 0" and q: "input_queue ?w = Map.empty"
    by (simp_all add: create_process_def Multitasking_init_def)
  have m: "mode (console (objs ?w 0))" and pid: "process_id (objs ?w 0) = ''p0''"
    and nt: "\<not> check_timeout 300 (objs ?w 0)"
    and oc: "output_collector (console (objs ?w 0)) = []"
    unfolding obj
    by (simp_all add: ChaoxingProcess_init_def ChaoxingWebConsole_init_def check_timeout_def)
  have s: "input_queue ?w (process_id (objs ?w 0)) = None"
    by (simp add: q)
  show ?thesis
    using ask_first_call [OF m s, of "\<lambda>s. s" "\<lambda>s. s" 300 "''code?''"] m pid nt oc q
    by (simp add: deque_append_def)
qed

subsection \<open>C5: the life of a slot\<close>

text \<open>
  C5 says that no slot is left for an id once \<^verbatim>\<open>ask\<close> has returned \<open>timeout\<close>. The
  branch that returns the posted answer pops the key; the branch that returns
  \<open>timeout\<close> leaves it in the dict. For a process created at time 0 with a pending
  slot, \<^verbatim>\<open>ask\<close> at time 400 returns \<open>timeout\<close> and the key is still stored with
  \<^verbatim>\<open>None\<close>; on the answer path (value \<open>1234\<close> posted) the key is gone after the call.
\<close>

theorem ask_timeout_keeps_slot:
  "ask (\<lambda>s. s) (\<lambda>s. s) 400 ''code?'' 0
       ((create_process ''p0'' 0 Multitasking_init)\<lparr>input_queue := [''p0'' \<mapsto> None]\<rparr>)
     = Inr (Some ''timeout'',
            set_alive 0 False
              ((create_process ''p0'' 0 Multitasking_init)\<lparr>input_queue := [''p0'' \<mapsto> None]\<rparr>))
   \<and> input_queue (set_alive 0 False
         ((create_process ''p0'' 0 Multitasking_init)\<lparr>input_queue := [''p0'' \<mapsto> None]\<rparr>)) ''p0''
       = Some None
   \<and> ask (\<lambda>s. s) (\<lambda>s. s) 0 ''code?'' 0
       ((create_process ''p0'' 0 Multitasking_init)\<lparr>input_queue := [''p0'' \<mapsto> Some ''1234'']\<rparr>)
     = Inr (Some ''1234'',
            (create_process ''p0'' 0 Multitasking_init)\<lparr>input_queue := Map.empty\<rparr>)"
  by (simp add: ask_def Let_def create_process_def Multitasking_init_def ChaoxingProcess_init_def
        ChaoxingWebConsole_init_def check_timeout_def set_alive_def)

subsection \<open>C6: the idle thresholds\<close>

text \<open>
  C6: \<^verbatim>\<open>check_timeout\<close> holds exactly when the idle time \<open>now - last_refresh_time\<close> is
  strictly above 86400 seconds in state \<^verbatim>\<open>RUNNING\<close>, and strictly above 300 seconds in
  the states \<^verbatim>\<open>INIT\<close>, \<^verbatim>\<open>SUCCESS\<close> and \<^verbatim>\<open>Failed\<close>; at an idle time equal to the threshold
  it does not hold. It is the test both users apply: \<^verbatim>\<open>ask\<close> on a pending slot with no
  answer returns \<open>timeout\<close> and sets \<^verbatim>\<open>alive\<close> to false exactly when it holds (and
  returns \<^verbatim>\<open>None\<close> with the world unchanged otherwise), and a pass of the garbage
  collector over a registry of one record removes that record and marks it dead exactly
  when it holds.
\<close>

theorem idle_timeout_policy:
  "(check_timeout now p \<longleftrightarrow>
      (if state p = RUNNING then 86400 < now - last_refresh_time p
       else 300 < now - last_refresh_time p))
   \<and> (state p \<in> {INIT, SUCCESS, Failed} \<longrightarrow>
        (check_timeout now p \<longleftrightarrow> 300 < now - last_refresh_time p))
   \<and> (now - last_refresh_time p = (if state p = RUNNING then 86400 else 300) \<longrightarrow>
        \<not> check_timeout now p)
   \<and> (mode (console (objs w r)) \<and> input_queue w (process_id (objs w r)) = Some None \<longrightarrow>
        ask render prompt_ask now text r w =
          Inr (if check_timeout now (objs w r) then (Some ''timeout'', set_alive r False w)
               else (None, w)))
   \<and> (tasks w = [r] \<longrightarrow>
        gc_tick now w =
          (if check_timeout now (objs w r) then (set_alive r False w)\<lparr>tasks := []\<rparr> else w))
   \<and> alive (objs (set_alive r False w) r) = False"
proof -
  have a: "check_timeout now p \<longleftrightarrow>
      (if state p = RUNNING then 86400 < now - last_refresh_time p
       else 300 < now - last_refresh_time p)"
    by (rule check_timeout_iff)
  have b: "state p \<in> {INIT, SUCCESS, Failed} \<longrightarrow>
        (check_timeout now p \<longleftrightarrow> 300 < now - last_refresh_time p)"
    by (auto simp: check_timeout_iff)
  have c: "now - last_refresh_time p = (if state p = RUNNING then 86400 else 300) \<longrightarrow>
        \<not> check_timeout now p"
    by (simp add: check_timeout_iff)
  have d: "mode (console (objs w r)) \<and> input_queue w (process_id (objs w r)) = Some None \<longrightarrow>
        ask render prompt_ask now text r w =
          Inr (if check_timeout now (objs w r) then (Some ''timeout'', set_alive r False w)
               else (None, w))"
    using ask_pending by blast
  have e: "tasks w = [r] \<longrightarrow>
        gc_tick now w =
          (if check_timeout now (objs w r) then (set_alive r False w)\<lparr>tasks := []\<rparr> else w)"
    using gc_tick_single by blast
  have f: "alive (objs (set_alive r False w) r) = False"
    by (simp add: set_alive_def)
  from a b c d e f show ?thesis by blast
qed

text \<open>
  The boundary values: a running process at 86400 and 86401 seconds, a process in each
  other state at 300 and 301 seconds, and both users at 300 and 301 seconds.
\<close>

theorem idle_timeout_policy_witness:
  "\<not> check_timeout 86400 (to_running (ChaoxingProcess_init ''p0'' None True 0))
   \<and> check_timeout 86401 (to_running (ChaoxingProcess_init ''p0'' None True 0))
   \<and> \<not> check_timeout 300 (ChaoxingProcess_init ''p0'' None True 0)
   \<and> check_timeout 301 (ChaoxingProcess_init ''p0'' None True 0)
   \<and> \<not> check_timeout 300 (to_success (ChaoxingProcess_init ''p0'' None True 0))
   \<and> check_timeout 301 (to_success (ChaoxingProcess_init ''p0'' None True 0))
   \<and> \<not> check_timeout 300 (to_failed (ChaoxingProcess_init ''p0'' None True 0))
   \<and> check_timeout 301 (to_failed (ChaoxingProcess_init ''p0'' None True 0))
   \<and> ask (\<lambda>s. s) (\<lambda>s. s) 300 ''code?'' 0
        ((create_process ''p0'' 0 Multitasking_init)\<lparr>input_queue := [''p0'' \<mapsto> None]\<rparr>)
       = Inr (None, (create_process ''p0'' 0 Multitasking_init)\<lparr>input_queue := [''p0'' \<mapsto> None]\<rparr>)
   \<and> ask (\<lambda>s. s) (\<lambda>s. s) 301 ''code?'' 0
        ((create_process ''p0'' 0 Multitasking_init)\<lparr>input_queue := [''p0'' \<mapsto> None]\<rparr>)
       = Inr (Some ''timeout'',
              set_alive 0 False
                ((create_process ''p0'' 0 Multitasking_init)\<lparr>input_queue := [''p0'' \<mapsto> None]\<rparr>))
   \<and> tasks (gc_tick 300 (create_process ''p0'' 0 Multitasking_init)) = [0]
   \<and> tasks (gc_tick 301 (create_process ''p0'' 0 Multitasking_init)) = []
   \<and> \<not> alive (objs (gc_tick 301 (create_process ''p0'' 0 Multitasking_init)) 0)"
proof -
  let ?p = "ChaoxingProcess_init ''p0'' None True 0"
  let ?w = "create_process ''p0'' 0 Multitasking_init"
  let ?ws = "?w\<lparr>input_queue := [''p0'' \<mapsto> None]\<rparr>"
  have run: "state (to_running ?p) = RUNNING" "last_refresh_time (to_running ?p) = 0"
    and ini: "state ?p = INIT" "last_refresh_time ?p = 0" "mode (console ?p)" "process_id ?p = ''p0''"
    and fin: "state (to_success ?p) = SUCCESS" "last_refresh_time (to_success ?p) = 0"
             "state (to_failed ?p) = Failed" "last_refresh_time (to_failed ?p) = 0"
    by (simp_all add: ChaoxingProcess_init_def ChaoxingWebConsole_init_def to_running_def
          to_success_def to_failed_def)
  have w: "objs ?w 0 = ?p" "tasks ?w = [0]" "objs ?ws 0 = ?p" "input_queue ?ws ''p0'' = Some None"
    by (simp_all add: create_process_def Multitasking_init_def)
  note pol = idle_timeout_policy
  have 1: "\<not> check_timeout 86400 (to_running ?p)"
    using pol [of 86400 "to_running ?p"] run by simp
  have 2: "check_timeout 86401 (to_running ?p)"
    using pol [of 86401 "to_running ?p"] run by simp
  have 3: "\<not> check_timeout 300 ?p"
    using pol [of 300 ?p] ini by simp
  have 4: "check_timeout 301 ?p"
    using pol [of 301 ?p] ini by simp
  have 5: "\<not> check_timeout 300 (to_success ?p)" "check_timeout 301 (to_success ?p)"
    using pol [of 300 "to_success ?p"] pol [of 301 "to_success ?p"] fin by simp_all
  have 6: "\<not> check_timeout 300 (to_failed ?p)" "check_timeout 301 (to_failed ?p)"
    using pol [of 300 "to_failed ?p"] pol [of 301 "to_failed ?p"] fin by simp_all
  have 7: "ask (\<lambda>s. s) (\<lambda>s. s) 300 ''code?'' 0 ?ws = Inr (None, ?ws)"
    using pol [of 300 ?p ?ws 0 "\<lambda>s. s" "\<lambda>s. s" "''code?''"] ini 3 w by simp
  have 8: "ask (\<lambda>s. s) (\<lambda>s. s) 301 ''code?'' 0 ?ws = Inr (Some ''timeout'', set_alive 0 False ?ws)"
    using pol [of 301 ?p ?ws 0 "\<lambda>s. s" "\<lambda>s. s" "''code?''"] ini 4 w by simp
  have 9: "gc_tick 300 ?w = ?w"
    using pol [of 300 ?p ?w 0] 3 w by simp
  have 10: "gc_tick 301 ?w = (set_alive 0 False ?w)\<lparr>tasks := []\<rparr>"
    using pol [of 301 ?p ?w 0] 4 w by simp
  have 11: "tasks (gc_tick 300 ?w) = [0]" "tasks (gc_tick 301 ?w) = []"
    "\<not> alive (objs (gc_tick 301 ?w) 0)"
    unfolding 9 10 using w by (simp_all add: set_alive_def)
  from 1 2 3 4 5 6 7 8 11 show ?thesis by blast
qed

subsection \<open>C7: the output buffer\<close>

text \<open>
  C7: after any run of prints on a new web-mode console the deque holds at most 50
  fragments, namely the last 50 printed, in print order; after 51 prints it holds all but
  the first one; and \<^verbatim>\<open>get_output\<close> is the concatenation of the fragments held, oldest
  first.
\<close>

theorem output_buffer_last_50:
  "length (output_collector (console_prints render texts (ChaoxingWebConsole_init True))) \<le> 50
   \<and> output_collector (console_prints render texts (ChaoxingWebConsole_init True))
       = drop (length texts - 50) (map render texts)
   \<and> (length texts = 51 \<longrightarrow>
        output_collector (console_prints render texts (ChaoxingWebConsole_init True))
          = tl (map render texts))
   \<and> get_output (console_prints render texts (ChaoxingWebConsole_init True))
       = Some (concat (output_collector
                 (console_prints render texts (ChaoxingWebConsole_init True))))"
proof -
  let ?c = "console_prints render texts (ChaoxingWebConsole_init True)"
  have web: "mode (ChaoxingWebConsole_init True)"
    by (simp add: ChaoxingWebConsole_init_def)
  have "?c = (ChaoxingWebConsole_init True)
      \<lparr>output_collector := foldl (deque_append 50) [] (map render texts)\<rparr>"
    using console_prints_web [OF web, of render texts]
    by (simp add: ChaoxingWebConsole_init_def)
  moreover have "foldl (deque_append 50) [] (map render texts)
      = drop (length texts - 50) (map render texts)"
    using foldl_deque_append [of "[]" 50 "map render texts"] by simp
  ultimately have coll: "output_collector ?c = drop (length texts - 50) (map render texts)"
    and m: "mode ?c"
    by (simp_all add: ChaoxingWebConsole_init_def)
  have len: "length (output_collector ?c) \<le> 50"
    unfolding coll by simp
  have one: "length texts = 51 \<longrightarrow> output_collector ?c = tl (map render texts)"
    unfolding coll by (simp add: drop_Suc)
  have out: "get_output ?c = Some (concat (output_collector ?c))"
    using m by (simp add: get_output_def)
  from len coll one out show ?thesis by blast
qed

text \<open>Fifty-one prints: \<open>a\<close>, then fifty times \<open>b\<close>. The \<open>a\<close> is gone.\<close>

theorem output_buffer_last_50_witness:
  "length (''a'' # replicate 50 ''b'') = 51
   \<and> output_collector
         (console_prints (\<lambda>s. s) (''a'' # replicate 50 ''b'') (ChaoxingWebConsole_init True))
       = replicate 50 ''b''
   \<and> get_output
         (console_prints (\<lambda>s. s) (''a'' # replicate 50 ''b'') (ChaoxingWebConsole_init True))
       = Some (concat (replicate 50 ''b''))"
  using output_buffer_last_50 [of "\<lambda>s. s" "''a'' # replicate 50 ''b''"]
  by simp

subsection \<open>C8: send_value\<close>

text \<open>
  C8 as stated fails in its consequence: \<^verbatim>\<open>send_value\<close> for an id with no slot does leave
  the world as it was, but the \<^verbatim>\<open>ask\<close> that follows need not behave as "no answer yet".
  For a process created at time 0 and never refreshed, a value sent before any slot exists
  and then an \<^verbatim>\<open>ask\<close> at time 301 give \<open>timeout\<close>.
\<close>

theorem send_value_then_ask_timeout:
  "input_queue (create_process ''p0'' 0 Multitasking_init) ''p0'' = None
   \<and> send_value ''p0'' ''1234'' (create_process ''p0'' 0 Multitasking_init)
       = create_process ''p0'' 0 Multitasking_init
   \<and> ask (\<lambda>s. s) (\<lambda>s. s) 301 ''code?'' 0
         (send_value ''p0'' ''1234'' (create_process ''p0'' 0 Multitasking_init))
       = Inr (Some ''timeout'',
              set_alive 0 False (print_on (\<lambda>s. s) ''code?'' 0
                ((create_process ''p0'' 0 Multitasking_init)\<lparr>input_queue := [''p0'' \<mapsto> None]\<rparr>)))"
  by (simp add: send_value_def ask_def Let_def create_process_def Multitasking_init_def
        ChaoxingProcess_init_def ChaoxingWebConsole_init_def check_timeout_def print_on_def
        console_print_def collect_output_def)

text \<open>
  C8, amended: \<^verbatim>\<open>send_value\<close> for a process id that has no slot leaves the world, and so
  the input queue, as it was: no slot is created. An \<^verbatim>\<open>ask\<close> for that id that follows
  (web mode) therefore takes the path of a first call with no answer supplied: it creates
  the slot itself, with no value, and prints the prompt; it then returns \<^verbatim>\<open>None\<close> when
  the process is within its idle threshold, and otherwise sets \<^verbatim>\<open>alive\<close> to false and
  returns \<open>timeout\<close>. Either way the slot it leaves holds no value. When the id has a
  slot, \<^verbatim>\<open>send_value\<close> stores the value in it and adds no key.
\<close>

theorem send_value_needs_slot:
  "(input_queue w pid = None \<longrightarrow>
      send_value pid v w = w
      \<and> (mode (console (objs w r)) \<and> process_id (objs w r) = pid \<longrightarrow>
           ask render prompt_ask now text r (send_value pid v w)
             = Inr (if check_timeout now (objs w r)
                    then (Some ''timeout'',
                          set_alive r False (print_on render text r
                            (w\<lparr>input_queue := (input_queue w)(pid \<mapsto> None)\<rparr>)))
                    else (None,
                          print_on render text r
                            (w\<lparr>input_queue := (input_queue w)(pid \<mapsto> None)\<rparr>)))
           \<and> input_queue (set_alive r False (print_on render text r
                 (w\<lparr>input_queue := (input_queue w)(pid \<mapsto> None)\<rparr>))) pid = Some None
           \<and> input_queue (print_on render text r
                 (w\<lparr>input_queue := (input_queue w)(pid \<mapsto> None)\<rparr>)) pid = Some None))
   \<and> (input_queue w pid \<noteq> None \<longrightarrow>
        send_value pid v w = w\<lparr>input_queue := (input_queue w)(pid \<mapsto> Some v)\<rparr>
        \<and> input_queue (send_value pid v w) pid = Some (Some v)
        \<and> dom (input_queue (send_value pid v w)) = dom (input_queue w))"
proof -
  let ?w1 = "print_on render text r (w\<lparr>input_queue := (input_queue w)(pid \<mapsto> None)\<rparr>)"
  have a: "send_value pid v w = w" if "input_queue w pid = None"
    using that by (simp add: send_value_def)
  have b: "ask render prompt_ask now text r (send_value pid v w)
             = Inr (if check_timeout now (objs w r)
                    then (Some ''timeout'', set_alive r False ?w1)
                    else (None, ?w1))"
    if none: "input_queue w pid = None" and m: "mode (console (objs w r))"
      and p: "process_id (objs w r) = pid"
  proof -
    have "input_queue w (process_id (objs w r)) = None" using none p by simp
    from ask_fresh [OF m this, of render prompt_ask now "text"] p a [OF none]
    show ?thesis by simp
  qed
  have q: "input_queue (set_alive r False ?w1) pid = Some None"
    "input_queue ?w1 pid = Some None"
    by simp_all
  have c: "send_value pid v w = w\<lparr>input_queue := (input_queue w)(pid \<mapsto> Some v)\<rparr>
        \<and> input_queue (send_value pid v w) pid = Some (Some v)
        \<and> dom (input_queue (send_value pid v w)) = dom (input_queue w)"
    if "input_queue w pid \<noteq> None"
    using that by (auto simp: send_value_def)
  from a b q c show ?thesis by blast
qed

text \<open>
  A value sent to a new process that has not asked yet, followed by its first \<^verbatim>\<open>ask\<close>
  at time 10 (within the threshold) or at time 500 (beyond it); and a value sent to the
  same process once its slot is pending.
\<close>

theorem send_value_needs_slot_witness:
  "input_queue (create_process ''p0'' 0 Multitasking_init) ''p0'' = None
   \<and> send_value ''p0'' ''1234'' (create_process ''p0'' 0 Multitasking_init)
       = create_process ''p0'' 0 Multitasking_init
   \<and> ask (\<lambda>s. s) (\<lambda>s. s) 10 ''code?'' 0
         (send_value ''p0'' ''1234'' (create_process ''p0'' 0 Multitasking_init))
       = Inr (None, print_on (\<lambda>s. s) ''code?'' 0
                ((create_process ''p0'' 0 Multitasking_init)\<lparr>input_queue := [''p0'' \<mapsto> None]\<rparr>))
   \<and> ask (\<lambda>s. s) (\<lambda>s. s) 500 ''code?'' 0
         (send_value ''p0'' ''1234'' (create_process ''p0'' 0 Multitasking_init))
       = Inr (Some ''timeout'',
              set_alive 0 False (print_on (\<lambda>s. s) ''code?'' 0
                ((create_process ''p0'' 0 Multitasking_init)\<lparr>input_queue := [''p0'' \<mapsto> None]\<rparr>)))
   \<and> input_queue ((create_process ''p0'' 0 Multitasking_init)\<lparr>input_queue := [''p0'' \<mapsto> None]\<rparr>) ''p0''
       \<noteq> None
   \<and> input_queue (send_value ''p0'' ''1234''
         ((create_process ''p0'' 0 Multitasking_init)\<lparr>input_queue := [''p0'' \<mapsto> None]\<rparr>)) ''p0''
       = Some (Some ''1234'')"
proof -
  let ?w = "create_process ''p0'' 0 Multitasking_init"
  let ?w1 = "?w\<lparr>input_queue := [''p0'' \<mapsto> None]\<rparr>"
  let ?wp = "print_on (\<lambda>s. s) ''code?'' 0 (?w\<lparr>input_queue := (input_queue ?w)(''p0'' \<mapsto> None)\<rparr>)"
  have obj: "objs ?w 0 = ChaoxingProcess_init ''p0'' None True 0" and q: "input_queue ?w = Map.empty"
    by (simp_all add: create_process_def Multitasking_init_def)
  have m: "mode (console (objs ?w 0))" and pid: "process_id (objs ?w 0) = ''p0''"
    and nt: "\<not> check_timeout 10 (objs ?w 0)" and ti: "check_timeout 500 (objs ?w 0)"
    unfolding obj
    by (simp_all add: ChaoxingProcess_init_def ChaoxingWebConsole_init_def check_timeout_def)
  have none: "input_queue ?w ''p0'' = None" by (simp add: q)
  have slot: "input_queue ?w1 ''p0'' \<noteq> None" by simp
  have 1: "send_value ''p0'' ''1234'' ?w = ?w"
    using send_value_needs_slot [of ?w "''p0''" "''1234''"] none by blast
  have "ask (\<lambda>s. s) (\<lambda>s. s) 10 ''code?'' 0 (send_value ''p0'' ''1234'' ?w)
       = Inr (if check_timeout 10 (objs ?w 0) then (Some ''timeout'', set_alive 0 False ?wp)
              else (None, ?wp))"
    using send_value_needs_slot
            [of ?w "''p0''" "''1234''" 0 "\<lambda>s. s" "\<lambda>s. s" 10 "''code?''"] none m pid
    by blast
  then have 2: "ask (\<lambda>s. s) (\<lambda>s. s) 10 ''code?'' 0 (send_value ''p0'' ''1234'' ?w)
       = Inr (None, ?wp)"
    using nt by simp
  have "ask (\<lambda>s. s) (\<lambda>s. s) 500 ''code?'' 0 (send_value ''p0'' ''1234'' ?w)
       = Inr (if check_timeout 500 (objs ?w 0) then (Some ''timeout'', set_alive 0 False ?wp)
              else (None, ?wp))"
    using send_value_needs_slot
            [of ?w "''p0''" "''1234''" 0 "\<lambda>s. s" "\<lambda>s. s" 500 "''code?''"] none m pid
    by blast
  then have 3: "ask (\<lambda>s. s) (\<lambda>s. s) 500 ''code?'' 0 (send_value ''p0'' ''1234'' ?w)
       = Inr (Some ''timeout'', set_alive 0 False ?wp)"
    using ti by simp
  have 4: "input_queue (send_value ''p0'' ''1234'' ?w1) ''p0'' = Some (Some ''1234'')"
    using send_value_needs_slot [of ?w1 "''p0''" "''1234''"] slot by blast
  from 1 2 3 4 none slot show ?thesis by (simp add: q)
qed

subsection \<open>C9: the state setters\<close>

text \<open>
  C9 as stated fails: \<^verbatim>\<open>to_init\<close> takes a running process, and a failed one, back to
  \<^verbatim>\<open>INIT\<close>, and \<^verbatim>\<open>to_running\<close> takes a process that has succeeded back to
  \<^verbatim>\<open>RUNNING\<close>.
\<close>

theorem to_init_from_running:
  "state (to_running (ChaoxingProcess_init ''p0'' None True 0)) = RUNNING
   \<and> state (to_init (to_running (ChaoxingProcess_init ''p0'' None True 0))) = INIT
   \<and> state (to_success (to_running (ChaoxingProcess_init ''p0'' None True 0))) = SUCCESS
   \<and> state (to_running (to_success (to_running (ChaoxingProcess_init ''p0'' None True 0)))) = RUNNING
   \<and> state (to_init (to_failed (to_running (ChaoxingProcess_init ''p0'' None True 0)))) = INIT"
  by (simp add: to_running_def to_init_def to_success_def to_failed_def ChaoxingProcess_init_def)

text \<open>
  C9, amended: each of the four setters puts the record in its own target state whatever
  state the record is in, and changes no other field; the result does not depend on the
  state before the call, and after any run of setter calls the state is the target of the
  last one. The order \<^verbatim>\<open>INIT\<close>, \<^verbatim>\<open>RUNNING\<close>, then \<^verbatim>\<open>SUCCESS\<close> or \<^verbatim>\<open>Failed\<close> is
  therefore the order in which a worker may call them, not one the setters enforce.
\<close>

theorem state_setters_ignore_current_state:
  "state (to_running p) = RUNNING \<and> state (to_success p) = SUCCESS
   \<and> state (to_failed p) = Failed \<and> state (to_init p) = INIT
   \<and> to_running (p\<lparr>state := s\<rparr>) = to_running p
   \<and> to_success (p\<lparr>state := s\<rparr>) = to_success p
   \<and> to_failed (p\<lparr>state := s\<rparr>) = to_failed p
   \<and> to_init (p\<lparr>state := s\<rparr>) = to_init p
   \<and> to_running p = p\<lparr>state := RUNNING\<rparr> \<and> to_success p = p\<lparr>state := SUCCESS\<rparr>
   \<and> to_failed p = p\<lparr>state := Failed\<rparr> \<and> to_init p = p\<lparr>state := INIT\<rparr>
   \<and> (fs \<noteq> [] \<and> set fs \<subseteq> {to_init, to_running, to_success, to_failed} \<longrightarrow>
        state (fold (\<lambda>f. f) fs p) = state (last fs q))"
proof -
  have seq: "fs \<noteq> [] \<and> set fs \<subseteq> {to_init, to_running, to_success, to_failed} \<longrightarrow>
        state (fold (\<lambda>f. f) fs p) = state (last fs q)"
    using state_of_last_setter by blast
  show ?thesis
    using seq by (simp add: to_running_def to_init_def to_success_def to_failed_def)
qed

text \<open>A run that goes forward twice and then back: the last call decides.\<close>

theorem state_setters_ignore_current_state_witness:
  "[to_running, to_success, to_init] \<noteq> []
   \<and> state (fold (\<lambda>f. f) [to_running, to_success, to_init]
              (ChaoxingProcess_init ''p0'' None True 0)) = INIT
   \<and> state (fold (\<lambda>f. f) [to_running, to_success, to_running]
              (ChaoxingProcess_init ''p0'' None True 0)) = RUNNING"
proof -
  let ?p = "ChaoxingProcess_init ''p0'' None True 0"
  have 1: "state (fold (\<lambda>f. f) [to_running, to_success, to_init] ?p) = state (to_init ?p)"
    using state_setters_ignore_current_state [of ?p _ "[to_running, to_success, to_init]" ?p]
    by simp
  have 2: "state (fold (\<lambda>f. f) [to_running, to_success, to_running] ?p) = state (to_running ?p)"
    using state_setters_ignore_current_state [of ?p _ "[to_running, to_success, to_running]" ?p]
    by simp
  have 3: "state (to_init ?p) = INIT" "state (to_running ?p) = RUNNING"
    using state_setters_ignore_current_state [of ?p] by simp_all
  from 1 2 3 show ?thesis by simp
qed

subsection \<open>C10: a process id that is not in the registry\<close>

text \<open>
  C10: for a process id that no task carries, \<^verbatim>\<open>get_process\<close> returns \<^verbatim>\<open>None\<close>; the
  route \<^verbatim>\<open>/get_process_output\<close> then raises \<^verbatim>\<open>AttributeError\<close> instead of returning an
  output, while the route \<^verbatim>\<open>/update_process_refresh_time\<close> tests for \<^verbatim>\<open>None\<close> and
  answers with the error status and message, changing nothing.
\<close>

theorem lookup_of_missing_id:
  assumes "\<forall>t\<in>set (tasks w). process_id (objs w t) \<noteq> pid"
  shows "get_process w pid = None
         \<and> app_get_process_output pid w = Inl AttributeError
         \<and> update_process_refresh_time pid now w
             = (StatusError (''No process found with id '' @ pid), w)"
  using get_process_in_None [OF assms]
  by (simp add: get_process_def app_get_process_output_def update_process_refresh_time_def)

text \<open>
  The id \<open>ghost\<close> in a registry whose only process is \<open>p0\<close>; for \<open>p0\<close> itself the
  output route answers.
\<close>

theorem lookup_of_missing_id_witness:
  "get_process (create_process ''p0'' 0 Multitasking_init) ''ghost'' = None
   \<and> app_get_process_output ''ghost'' (create_process ''p0'' 0 Multitasking_init) = Inl AttributeError
   \<and> update_process_refresh_time ''ghost'' 5 (create_process ''p0'' 0 Multitasking_init)
       = (StatusError ''No process found with id ghost'', create_process ''p0'' 0 Multitasking_init)
   \<and> app_get_process_output ''p0'' (create_process ''p0'' 0 Multitasking_init) = Inr (Some [])"
proof -
  let ?w = "create_process ''p0'' 0 Multitasking_init"
  have h: "\<forall>t\<in>set (tasks ?w). process_id (objs ?w t) \<noteq> ''ghost''"
    by (simp add: create_process_def Multitasking_init_def ChaoxingProcess_init_def)
  have "app_get_process_output ''p0'' ?w = Inr (Some [])"
    by (simp add: app_get_process_output_def get_process_def get_output_def create_process_def
          Multitasking_init_def ChaoxingProcess_init_def ChaoxingWebConsole_init_def)
  with lookup_of_missing_id [OF h, of 5] show ?thesis by simp
qed

end
